theory Spec2Isabelle
  imports Complex_Main "HOL-Library.Multiset"
begin

section \<open>The face-blur tool: data model\<close>

text \<open>
  The face-blur tool is client-side JavaScript. Its numbers are IEEE doubles; the
  model idealises them as \<^typ>\<open>real\<close> (no rounding error, no \<open>NaN\<close> or \<open>Infinity\<close>
  except where the source produces them on purpose, as \<open>faceDistance\<close> does).
  Counts, indices and byte values are \<^typ>\<open>nat\<close>, ages are \<^typ>\<open>int\<close>.
  \<open>Math.round\<close> rounds half up, which is \<^const>\<open>round\<close> (\<open>round x = \<lfloor>x + 1/2\<rfloor>\<close>).
  \<open>Date.now()\<close> is a clock reading handed to the model as a parameter.
\<close>

record box =
  box_x :: real
  box_y :: real
  box_width :: real
  box_height :: real

text \<open>What the detection engine (face-api, an external library) returns for one face.\<close>

record detection =
  det_box :: box
  det_landmarks :: "(real \<times> real) list"
  det_age :: real
  det_gender :: string
  det_genderProbability :: real
  det_descriptor :: "real list"

text \<open>
  A face object. \<open>detectFaces\<close> creates it without \<open>imageId\<close>, \<open>imageName\<close> and
  \<open>thumbnail\<close>; the tool adds these properties later, so they are optional here
  (\<open>None\<close> is JavaScript's \<open>undefined\<close>). \<open>faceDistance\<close> tests its descriptor
  arguments for absence, so the descriptor is optional as well.
\<close>

record face =
  face_id :: string
  face_box :: box
  face_landmarks :: "(real \<times> real) list"
  face_age :: int
  face_gender :: string
  face_genderProbability :: real
  face_isChild :: bool
  face_selected :: bool
  face_descriptor :: "real list option"
  face_imageId :: "string option"
  face_imageName :: "string option"
  face_thumbnail :: "string option"

record person =
  person_id :: string
  person_faces :: "face list"
  person_faceIds :: "string list"
  person_isChild :: bool
  person_avgAge :: int
  person_thumbnail :: "string option"
  person_selected :: bool

datatype error =
    ModelsNotLoaded
  | EngineFailure string
  | LoadFailure string
  | IndexSizeError

subsection \<open>Template strings\<close>

definition digit_char :: "nat \<Rightarrow> char" where
  "digit_char d = char_of (48 + d)"

fun show_nat_fuel :: "nat \<Rightarrow> nat \<Rightarrow> string" where
  "show_nat_fuel 0 n = [digit_char (n mod 10)]"
| "show_nat_fuel (Suc k) n =
     (if n < 10 then [digit_char n] else show_nat_fuel k (n div 10) @ [digit_char (n mod 10)])"

definition show_nat :: "nat \<Rightarrow> string" where
  \<comment> \<open>decimal rendering of a number inside a template string; \<open>n\<close> has at most \<open>n + 1\<close> digits\<close>
  "show_nat n = show_nat_fuel n n"

definition template_id :: "string \<Rightarrow> nat \<Rightarrow> nat \<Rightarrow> string" where
  \<comment> \<open>\<open>`${prefix}-${Date.now()}-${index}`\<close>\<close>
  "template_id prefix t i = prefix @ ''-'' @ show_nat t @ ''-'' @ show_nat i"

section \<open>Detection adapter: \<open>detectFaces\<close>\<close>

definition detection_to_face :: "nat \<Rightarrow> nat \<Rightarrow> detection \<Rightarrow> face" where
  \<comment> \<open>the callback of \<open>detections.map\<close>; \<open>t\<close> is \<open>Date.now()\<close> at that call\<close>
  "detection_to_face t index detection =
     (let age = round (det_age detection);
          isChild = (age < 18)
      in \<lparr> face_id = template_id ''face'' t index,
           face_box = \<lparr> box_x = box_x (det_box detection),
                        box_y = box_y (det_box detection),
                        box_width = box_width (det_box detection),
                        box_height = box_height (det_box detection) \<rparr>,
           face_landmarks = det_landmarks detection,
           face_age = age,
           face_gender = det_gender detection,
           face_genderProbability = det_genderProbability detection,
           face_isChild = isChild,
           face_selected = isChild,
           face_descriptor = Some (det_descriptor detection),
           face_imageId = None,
           face_imageName = None,
           face_thumbnail = None \<rparr>)"

definition detectFaces ::
  "bool \<Rightarrow> ('i \<Rightarrow> error + detection list) \<Rightarrow> (nat \<Rightarrow> nat) \<Rightarrow> 'i \<Rightarrow> error + face list" where
  \<comment> \<open>\<open>modelsReady\<close>: both refs are set; \<open>engine\<close>: the awaited face-api pipeline, which may
      reject; \<open>now index\<close>: the clock when the face at \<open>index\<close> is built\<close>
  "detectFaces modelsReady engine now imageElement =
     (if \<not> modelsReady then Inl ModelsNotLoaded
      else case engine imageElement of
             Inl e \<Rightarrow> Inl e
           | Inr detections \<Rightarrow>
               Inr (map (\<lambda>(index, detection). detection_to_face (now index) index detection)
                        (enumerate 0 detections)))"

section \<open>Person clustering: \<open>faceDistance\<close> and \<open>clusterFacesByPerson\<close>\<close>

datatype jsnum = Finite real | Infinity | NaN

fun sum_sq_diffs :: "real list \<Rightarrow> real list \<Rightarrow> real \<Rightarrow> real option" where
  \<comment> \<open>the loop over \<open>descriptor1\<close>; reading past the end of \<open>descriptor2\<close> gives
      \<open>undefined\<close> and the sum becomes \<open>NaN\<close> (\<open>None\<close>)\<close>
  "sum_sq_diffs [] d2 acc = Some acc"
| "sum_sq_diffs (a # d1) [] acc = None"
| "sum_sq_diffs (a # d1) (b # d2) acc = sum_sq_diffs d1 d2 (acc + (a - b) * (a - b))"

definition faceDistance :: "real list option \<Rightarrow> real list option \<Rightarrow> jsnum" where
  "faceDistance descriptor1 descriptor2 =
     (case (descriptor1, descriptor2) of
        (Some d1, Some d2) \<Rightarrow>
          (case sum_sq_diffs d1 d2 0 of None \<Rightarrow> NaN | Some s \<Rightarrow> Finite (sqrt s))
      | _ \<Rightarrow> Infinity)"

fun js_less :: "jsnum \<Rightarrow> real \<Rightarrow> bool" where
  \<comment> \<open>\<open>distance < threshold\<close> for a finite threshold\<close>
  "js_less (Finite d) t = (d < t)"
| "js_less Infinity t = False"
| "js_less NaN t = False"

fun scanOthers :: "face \<Rightarrow> real \<Rightarrow> face list \<Rightarrow> face list \<times> string set \<Rightarrow> face list \<times> string set" where
  \<comment> \<open>the inner \<open>for (const otherFace of faces)\<close>, on the state \<open>(personFaces, assigned)\<close>\<close>
  "scanOthers face threshold [] st = st"
| "scanOthers face threshold (otherFace # rest) (personFaces, assigned) =
     (if face_id otherFace \<in> assigned then scanOthers face threshold rest (personFaces, assigned)
      else if js_less (faceDistance (face_descriptor face) (face_descriptor otherFace)) threshold
      then scanOthers face threshold rest
             (personFaces @ [otherFace], insert (face_id otherFace) assigned)
      else scanOthers face threshold rest (personFaces, assigned))"

definition makePerson :: "nat \<Rightarrow> nat \<Rightarrow> face list \<Rightarrow> person" where
  \<comment> \<open>the object pushed to \<open>persons\<close>; \<open>t\<close> is \<open>Date.now()\<close>, \<open>n\<close> is \<open>persons.length\<close>\<close>
  "makePerson t n personFaces =
     (let childCount = length (filter face_isChild personFaces);
          isChild = (real childCount > real (length personFaces) / 2);
          avgAge = round (real_of_int (foldl (\<lambda>acc f. acc + face_age f) 0 personFaces)
                          / real (length personFaces))
      in \<lparr> person_id = template_id ''person'' t n,
           person_faces = personFaces,
           person_faceIds = map face_id personFaces,
           person_isChild = isChild,
           person_avgAge = avgAge,
           person_thumbnail = face_thumbnail (hd personFaces),
           person_selected = list_ex face_selected personFaces \<rparr>)"

fun clusterLoop ::
  "(nat \<Rightarrow> nat) \<Rightarrow> face list \<Rightarrow> real \<Rightarrow> face list \<Rightarrow> person list \<times> string set \<Rightarrow> person list" where
  \<comment> \<open>the outer \<open>for (const face of faces)\<close>, on the state \<open>(persons, assigned)\<close>\<close>
  "clusterLoop now faces threshold [] (persons, assigned) = persons"
| "clusterLoop now faces threshold (face # rest) (persons, assigned) =
     (if face_id face \<in> assigned then clusterLoop now faces threshold rest (persons, assigned)
      else
        (case scanOthers face threshold faces ([face], insert (face_id face) assigned) of
           (personFaces, assigned') \<Rightarrow>
             clusterLoop now faces threshold rest
               (persons @ [makePerson (now (length persons)) (length persons) personFaces],
                assigned')))"

definition clusterFacesByPerson :: "(nat \<Rightarrow> nat) \<Rightarrow> face list \<Rightarrow> real \<Rightarrow> person list" where
  "clusterFacesByPerson now faces threshold =
     (if length faces = 0 then [] else clusterLoop now faces threshold faces ([], {}))"

definition default_threshold :: real where
  "default_threshold = 0.6"

definition allIds :: "person list \<Rightarrow> string list" where
  \<comment> \<open>the member ids of all clusters, in order\<close>
  "allIds ps = concat (map person_faceIds ps)"

section \<open>The tool's state\<close>

record point =
  pt_x :: real
  pt_y :: real

record manual_region =
  region_id :: string
  region_box :: box
  region_selected :: bool
  region_isManual :: bool

text \<open>
  A selected file and the decoded image element. Pixel content is not needed by the
  interaction code, only the natural size.
\<close>

record image_file =
  file_name :: string
  file_type :: string

record image =
  image_src :: string
  image_width :: nat
  image_height :: nat

record image_entry =
  entry_id :: string
  entry_file :: image_file
  entry_img :: image
  entry_faces :: "face list"
  entry_manualRegions :: "manual_region list"
  entry_processed :: "string option"

text \<open>The object held in \<open>draggingRef.current\<close> (the DOM element is left out).\<close>

record drag =
  drag_type :: string
  drag_id :: string
  drag_action :: string
  drag_corner :: "string option"
  drag_offset :: point
  drag_initialBox :: box
  drag_currentBox :: box
  drag_imgWidth :: real
  drag_imgHeight :: real

text \<open>
  The component's React state and refs. Every handler is modelled as run on the current
  state (the closures of the source capture the state of the latest render).
\<close>

record tool_state =
  st_images :: "image_entry list"
  st_selectedImageId :: "string option"
  st_blurType :: string
  st_isProcessing :: bool
  st_processingStatus :: string
  st_isDrawing :: bool
  st_drawStart :: "point option"
  st_currentRect :: "box option"
  st_dragging :: "drag option"
  st_modelsLoaded :: bool

text \<open>
  What a handler reads from the browser: the canvas element's bounding rectangle
  (\<open>None\<close> when \<open>canvasRef.current\<close> is not set) and the mouse event. The model presumes
  a laid-out canvas, \<open>rect.width\<close> and \<open>rect.height\<close> not zero.
\<close>

record dom_rect =
  rect_left :: real
  rect_top :: real
  rect_width :: real
  rect_height :: real

record mouse_event =
  ev_clientX :: real
  ev_clientY :: real
  ev_target_is_canvas :: bool

definition selectedImage :: "tool_state \<Rightarrow> image_entry option" where
  "selectedImage st =
     (case st_selectedImageId st of
        None \<Rightarrow> None
      | Some sel \<Rightarrow> find (\<lambda>img. entry_id img = sel) (st_images st))"

definition allFaces :: "image_entry list \<Rightarrow> face list" where
  "allFaces imgs =
     concat (map (\<lambda>img. map (\<lambda>face. face \<lparr> face_imageId := Some (entry_id img),
                                               face_imageName := Some (file_name (entry_file img)) \<rparr>)
                              (entry_faces img)) imgs)"

definition persons_memo :: "(nat \<Rightarrow> nat) \<Rightarrow> tool_state \<Rightarrow> person list" where
  "persons_memo now st = clusterFacesByPerson now (allFaces (st_images st)) default_threshold"

section \<open>Person selection: \<open>togglePersonSelection\<close>\<close>

definition toggleFaces :: "string list \<Rightarrow> bool \<Rightarrow> image_entry list \<Rightarrow> image_entry list" where
  \<comment> \<open>the updater passed to \<open>setImages\<close>\<close>
  "toggleFaces faceIdsToToggle newSelected prev =
     map (\<lambda>img. img \<lparr> entry_processed := None,
                        entry_faces := map (\<lambda>face. if face_id face \<in> set faceIdsToToggle
                                                      then face \<lparr> face_selected := newSelected \<rparr>
                                                      else face)
                                           (entry_faces img) \<rparr>) prev"

definition togglePersonSelection :: "person list \<Rightarrow> string \<Rightarrow> tool_state \<Rightarrow> tool_state" where
  \<comment> \<open>\<open>ps\<close> is the memoised \<open>persons\<close> list of the current render (\<open>persons_memo\<close>)\<close>
  "togglePersonSelection ps personId st =
     (case find (\<lambda>p. person_id p = personId) ps of
        None \<Rightarrow> st
      | Some person \<Rightarrow>
          st \<lparr> st_images := toggleFaces (person_faceIds person) (\<not> person_selected person)
                                (st_images st) \<rparr>)"

section \<open>Region interaction: drawing, moving and resizing\<close>

definition minSize :: real where
  "minSize = 30"

definition getCanvasCoordinates :: "mouse_event \<Rightarrow> dom_rect \<Rightarrow> real \<Rightarrow> real \<Rightarrow> point" where
  \<comment> \<open>\<open>w\<close> and \<open>h\<close> are the natural image width and height\<close>
  "getCanvasCoordinates e rect w h =
     (let scaleX = w / rect_width rect;
          scaleY = h / rect_height rect
      in \<lparr> pt_x = (ev_clientX e - rect_left rect) * scaleX,
           pt_y = (ev_clientY e - rect_top rect) * scaleY \<rparr>)"

definition moveBox :: "point \<Rightarrow> point \<Rightarrow> real \<Rightarrow> real \<Rightarrow> box \<Rightarrow> box" where
  \<comment> \<open>the \<open>action === 'move'\<close> branch\<close>
  "moveBox coords offset imgWidth imgHeight b =
     (let b1 = b \<lparr> box_x := max 0 (min (pt_x coords - pt_x offset) (imgWidth - box_width b)) \<rparr>
      in b1 \<lparr> box_y := max 0 (min (pt_y coords - pt_y offset) (imgHeight - box_height b1)) \<rparr>)"

definition resizeEast :: "point \<Rightarrow> real \<Rightarrow> box \<Rightarrow> box" where
  "resizeEast coords imgWidth b =
     b \<lparr> box_width := min (imgWidth - box_x b) (max minSize (pt_x coords - box_x b)) \<rparr>"

definition resizeWest :: "point \<Rightarrow> box \<Rightarrow> box" where
  "resizeWest coords b =
     (let newX = max 0 (min (pt_x coords) (box_x b + box_width b - minSize))
      in b \<lparr> box_width := box_x b + box_width b - newX, box_x := newX \<rparr>)"

definition resizeSouth :: "point \<Rightarrow> real \<Rightarrow> box \<Rightarrow> box" where
  "resizeSouth coords imgHeight b =
     b \<lparr> box_height := min (imgHeight - box_y b) (max minSize (pt_y coords - box_y b)) \<rparr>"

definition resizeNorth :: "point \<Rightarrow> box \<Rightarrow> box" where
  "resizeNorth coords b =
     (let newY = max 0 (min (pt_y coords) (box_y b + box_height b - minSize))
      in b \<lparr> box_height := box_y b + box_height b - newY, box_y := newY \<rparr>)"

definition includes_char :: "string \<Rightarrow> char \<Rightarrow> bool" where
  \<comment> \<open>\<open>corner.includes('e')\<close> for a one-character argument\<close>
  "includes_char corner c = (c \<in> set corner)"

definition resizeBox :: "string \<Rightarrow> point \<Rightarrow> real \<Rightarrow> real \<Rightarrow> box \<Rightarrow> box" where
  \<comment> \<open>the \<open>action === 'resize'\<close> branch: the four tests in the order of the source\<close>
  "resizeBox corner coords imgWidth imgHeight b =
     (let b1 = (if includes_char corner CHR ''e'' then resizeEast coords imgWidth b else b);
          b2 = (if includes_char corner CHR ''w'' then resizeWest coords b1 else b1);
          b3 = (if includes_char corner CHR ''s'' then resizeSouth coords imgHeight b2 else b2);
          b4 = (if includes_char corner CHR ''n'' then resizeNorth coords b3 else b3)
      in b4)"

datatype js_error = TypeError

definition dragStep :: "point \<Rightarrow> drag \<Rightarrow> js_error + drag" where
  \<comment> \<open>the body of \<open>handleGlobalMouseMove\<close> once the pointer position is known;
      \<open>corner.includes\<close> on a \<open>null\<close> corner throws\<close>
  "dragStep coords d =
     (if drag_action d = ''move''
      then Inr (d \<lparr> drag_currentBox :=
                      moveBox coords (drag_offset d) (drag_imgWidth d) (drag_imgHeight d)
                        (drag_currentBox d) \<rparr>)
      else if drag_action d = ''resize''
      then (case drag_corner d of
              None \<Rightarrow> Inl TypeError
            | Some corner \<Rightarrow>
                Inr (d \<lparr> drag_currentBox :=
                           resizeBox corner coords (drag_imgWidth d) (drag_imgHeight d)
                             (drag_currentBox d) \<rparr>))
      else Inr d)"

definition handleGlobalMouseMove ::
  "mouse_event \<Rightarrow> dom_rect option \<Rightarrow> tool_state \<Rightarrow> js_error + tool_state" where
  "handleGlobalMouseMove e canvas st =
     (case (st_dragging st, canvas) of
        (Some d, Some rect) \<Rightarrow>
          (case dragStep (getCanvasCoordinates e rect (drag_imgWidth d) (drag_imgHeight d)) d of
             Inl err \<Rightarrow> Inl err
           | Inr d' \<Rightarrow> Inr (st \<lparr> st_dragging := Some d' \<rparr>))
      | _ \<Rightarrow> Inr st)"

definition clearDrawing :: "tool_state \<Rightarrow> tool_state" where
  "clearDrawing st = st \<lparr> st_isDrawing := False, st_drawStart := None, st_currentRect := None \<rparr>"

definition commitBox :: "string option \<Rightarrow> drag \<Rightarrow> image_entry list \<Rightarrow> image_entry list" where
  \<comment> \<open>the updater of \<open>handleGlobalMouseUp\<close>; \<open>sel\<close> is \<open>selectedImage?.id\<close>\<close>
  "commitBox sel d prev =
     map (\<lambda>img.
            if Some (entry_id img) \<noteq> sel then img
            else if drag_type d = ''face''
            then img \<lparr> entry_processed := None,
                       entry_faces := map (\<lambda>f. if face_id f = drag_id d
                                                 then f \<lparr> face_box := drag_currentBox d \<rparr> else f)
                                          (entry_faces img) \<rparr>
            else img \<lparr> entry_processed := None,
                       entry_manualRegions :=
                         map (\<lambda>r. if region_id r = drag_id d
                                   then r \<lparr> region_box := drag_currentBox d \<rparr> else r)
                             (entry_manualRegions img) \<rparr>) prev"

definition handleGlobalMouseUp :: "tool_state \<Rightarrow> tool_state" where
  "handleGlobalMouseUp st =
     (case st_dragging st of
        None \<Rightarrow> st
      | Some d \<Rightarrow>
          (let st1 = clearDrawing st;
               changed = (box_x (drag_currentBox d) \<noteq> box_x (drag_initialBox d) \<or>
                          box_y (drag_currentBox d) \<noteq> box_y (drag_initialBox d) \<or>
                          box_width (drag_currentBox d) \<noteq> box_width (drag_initialBox d) \<or>
                          box_height (drag_currentBox d) \<noteq> box_height (drag_initialBox d));
               st2 = (if changed
                      then st1 \<lparr> st_images :=
                                   commitBox (map_option entry_id (selectedImage st)) d
                                     (st_images st1) \<rparr>
                      else st1)
           in st2 \<lparr> st_dragging := None \<rparr>))"

definition handleRegionMouseDown ::
  "mouse_event \<Rightarrow> dom_rect option \<Rightarrow> string \<Rightarrow> string \<Rightarrow> string \<Rightarrow> string option \<Rightarrow>
   tool_state \<Rightarrow> tool_state" where
  "handleRegionMouseDown e canvas regionType regionId action corner st =
     (case (selectedImage st, canvas) of
        (Some sel, Some rect) \<Rightarrow>
          (let w = real (image_width (entry_img sel));
               h = real (image_height (entry_img sel));
               coords = getCanvasCoordinates e rect w h;
               region = (if regionType = ''face''
                         then map_option face_box
                                (find (\<lambda>f. face_id f = regionId) (entry_faces sel))
                         else map_option region_box
                                (find (\<lambda>r. region_id r = regionId) (entry_manualRegions sel)))
           in case region of
                None \<Rightarrow> st
              | Some b \<Rightarrow>
                  st \<lparr> st_dragging := Some
                        \<lparr> drag_type = regionType, drag_id = regionId, drag_action = action,
                          drag_corner = corner,
                          drag_offset = \<lparr> pt_x = pt_x coords - box_x b,
                                          pt_y = pt_y coords - box_y b \<rparr>,
                          drag_initialBox = b, drag_currentBox = b,
                          drag_imgWidth = w, drag_imgHeight = h \<rparr> \<rparr>)
      | _ \<Rightarrow> st)"

definition handleCanvasMouseDown :: "mouse_event \<Rightarrow> dom_rect option \<Rightarrow> tool_state \<Rightarrow> tool_state" where
  "handleCanvasMouseDown e canvas st =
     (if \<not> ev_target_is_canvas e then st
      else if st_dragging st \<noteq> None then st
      else case (selectedImage st, canvas) of
             (Some sel, Some rect) \<Rightarrow>
               st \<lparr> st_isDrawing := True,
                    st_drawStart := Some (getCanvasCoordinates e rect
                                            (real (image_width (entry_img sel)))
                                            (real (image_height (entry_img sel)))),
                    st_currentRect := None \<rparr>
           | _ \<Rightarrow> st)"

definition candidateRect :: "point \<Rightarrow> point \<Rightarrow> box" where
  \<comment> \<open>the object passed to \<open>setCurrentRect\<close>\<close>
  "candidateRect drawStart coords =
     \<lparr> box_x = min (pt_x drawStart) (pt_x coords),
       box_y = min (pt_y drawStart) (pt_y coords),
       box_width = \<bar>pt_x coords - pt_x drawStart\<bar>,
       box_height = \<bar>pt_y coords - pt_y drawStart\<bar> \<rparr>"




section \<open>File selection: \<open>handleFilesSelected\<close>\<close>

text \<open>
  The canvas handed to the detection engine and to the thumbnail encoder: the image drawn
  on it and its size. What the browser does with its pixels (\<open>loadImage\<close>, face-api's
  detection, \<open>toDataURL\<close>) is outside the repository and is a parameter of the model.
\<close>

record det_canvas =
  dc_image :: image
  dc_width :: nat
  dc_height :: nat

record environment =
  env_loadImage :: "image_file \<Rightarrow> error + image"
  env_modelsReady :: bool
  env_engine :: "det_canvas \<Rightarrow> error + detection list"
  env_now_image :: "nat \<Rightarrow> nat"
  env_now_face :: "nat \<Rightarrow> nat \<Rightarrow> nat"
  env_toDataURL :: "det_canvas \<Rightarrow> int \<Rightarrow> int \<Rightarrow> int \<Rightarrow> int \<Rightarrow> string"

definition MAX_DETECTION_SIZE :: nat where
  "MAX_DETECTION_SIZE = 1920"

definition imageToCanvas :: "image \<Rightarrow> det_canvas" where
  "imageToCanvas img =
     \<lparr> dc_image = img, dc_width = image_width img, dc_height = image_height img \<rparr>"

definition resizeForDetection :: "image \<Rightarrow> det_canvas \<times> real" where
  "resizeForDetection img =
     (if image_width img \<le> MAX_DETECTION_SIZE \<and> image_height img \<le> MAX_DETECTION_SIZE
      then (imageToCanvas img, 1)
      else
        (let scale = min (real MAX_DETECTION_SIZE / real (image_width img))
                         (real MAX_DETECTION_SIZE / real (image_height img))
         in (\<lparr> dc_image = img,
               dc_width = nat (round (real (image_width img) * scale)),
               dc_height = nat (round (real (image_height img) * scale)) \<rparr>, scale)))"

definition extractFaceThumbnail ::
  "(det_canvas \<Rightarrow> int \<Rightarrow> int \<Rightarrow> int \<Rightarrow> int \<Rightarrow> string) \<Rightarrow> det_canvas \<Rightarrow> box \<Rightarrow> string" where
  \<comment> \<open>\<open>padding\<close> has its default value 20\<close>
  "extractFaceThumbnail toDataURL canvas b =
     (let padding = 20;
          x = max 0 (round (box_x b - padding));
          y = max 0 (round (box_y b - padding));
          width = min (round (box_width b + padding * 2)) (int (dc_width canvas) - x);
          height = min (round (box_height b + padding * 2)) (int (dc_height canvas) - y)
      in toDataURL canvas x y width height)"

definition scaleBox :: "real \<Rightarrow> box \<Rightarrow> box" where
  "scaleBox scale b =
     \<lparr> box_x = box_x b / scale, box_y = box_y b / scale,
       box_width = box_width b / scale, box_height = box_height b / scale \<rparr>"

definition processFile :: "environment \<Rightarrow> nat \<Rightarrow> image_file \<Rightarrow> error + image_entry" where
  \<comment> \<open>the body of the \<open>try\<close> block for the file at index \<open>i\<close>; \<open>Inl\<close> is a thrown error\<close>
  "processFile env i file =
     (case env_loadImage env file of
        Inl e \<Rightarrow> Inl e
      | Inr img \<Rightarrow>
          (case resizeForDetection img of
             (detectionCanvas, scale) \<Rightarrow>
               (case detectFaces (env_modelsReady env) (env_engine env) (env_now_face env i)
                       detectionCanvas of
                  Inl e \<Rightarrow> Inl e
                | Inr rawFaces \<Rightarrow>
                    (let originalCanvas = imageToCanvas img;
                         imageId = template_id ''img'' (env_now_image env i) i;
                         faces = map (\<lambda>face. face
                                   \<lparr> face_imageId := Some imageId,
                                     face_box := scaleBox scale (face_box face),
                                     face_thumbnail := Some (extractFaceThumbnail
                                        (env_toDataURL env) originalCanvas
                                        (scaleBox scale (face_box face))) \<rparr>) rawFaces
                     in Inr \<lparr> entry_id = imageId, entry_file = file, entry_img = img,
                              entry_faces = faces, entry_manualRegions = [],
                              entry_processed = None \<rparr>))))"

fun processFiles ::
  "environment \<Rightarrow> nat \<Rightarrow> image_file list \<Rightarrow> image_entry list \<times> string list \<Rightarrow>
   image_entry list \<times> string list" where
  \<comment> \<open>the \<open>for\<close> loop from index \<open>i\<close> on, on the state \<open>(newImages, console)\<close>\<close>
  "processFiles env i [] st = st"
| "processFiles env i (file # files) (newImages, console) =
     (case processFile env i file of
        Inr entry \<Rightarrow> processFiles env (i + 1) files (newImages @ [entry], console)
      | Inl err \<Rightarrow>
          processFiles env (i + 1) files
            (newImages, console @ [''Failed to process '' @ file_name file]))"

definition handleFilesSelected ::
  "environment \<Rightarrow> image_file list \<Rightarrow> tool_state \<Rightarrow> tool_state \<times> string list" where
  \<comment> \<open>returns the state after the batch and the lines written to the console\<close>
  "handleFilesSelected env files st =
     (if \<not> st_modelsLoaded st then (st, [])
      else
        (case processFiles env 0 files ([], []) of
           (newImages, console) \<Rightarrow>
             (st \<lparr> st_images := st_images st @ newImages,
                   st_selectedImageId :=
                     (if length newImages > 0 \<and> st_selectedImageId st = None
                      then Some (entry_id (hd newImages)) else st_selectedImageId st),
                   st_isProcessing := False,
                   st_processingStatus := [] \<rparr>, console)))"

definition succeeds :: "environment \<Rightarrow> image_file \<Rightarrow> bool" where
  \<comment> \<open>loading the file and detecting faces in it both succeed\<close>
  "succeeds env file =
     (case env_loadImage env file of
        Inl e \<Rightarrow> False
      | Inr img \<Rightarrow> env_modelsReady env \<and> \<not> isl (env_engine env (fst (resizeForDetection img))))"

section \<open>Render engine: \<open>applyGaussianBlur\<close>, \<open>applyPixelation\<close>, \<open>applyBlurToFaces\<close>\<close>

text \<open>
  A canvas is its size and its RGBA bytes in row-major order, four per pixel, as
  \<open>ImageData\<close> lays them out. \<open>getImageData\<close> and \<open>putImageData\<close> are the browser's; they
  are modelled after the HTML standard: a zero width or height throws \<open>IndexSizeError\<close>,
  pixels outside the canvas read as transparent black, and writes outside it are dropped.
\<close>

record canvas =
  cv_width :: nat
  cv_height :: nat
  cv_data :: "nat list"




record image_data =
  id_width :: nat
  id_height :: nat
  id_data :: "nat list"


definition putImageData :: "canvas \<Rightarrow> image_data \<Rightarrow> int \<Rightarrow> int \<Rightarrow> canvas" where
  "putImageData c imageData dx dy =
     c \<lparr> cv_data :=
           map (\<lambda>n. let i = int ((n div 4) mod cv_width c) - dx;
                        j = int ((n div 4) div cv_width c) - dy
                    in if 0 \<le> i \<and> i < int (id_width imageData) \<and>
                          0 \<le> j \<and> j < int (id_height imageData)
                       then id_data imageData ! (4 * (nat j * id_width imageData + nat i) + n mod 4)
                       else cv_data c ! n)
               [0 ..< length (cv_data c)] \<rparr>"

definition PIXEL_SIZE :: nat where
  "PIXEL_SIZE = 24"

text \<open>
  The four inner loops of \<open>applyPixelation\<close>, each with the loop test of the source.
  \<open>row\<close> stands for \<open>py + dy\<close>.
\<close>

function sum_dx ::
  "nat list \<Rightarrow> nat \<Rightarrow> nat \<Rightarrow> nat \<Rightarrow> nat \<Rightarrow> nat \<times> nat \<times> nat \<times> nat \<Rightarrow> nat \<times> nat \<times> nat \<times> nat" where
  "sum_dx data width px row dx (r, g, b, cnt) =
     (if dx < PIXEL_SIZE \<and> px + dx < width
      then (let i = (row * width + (px + dx)) * 4
            in sum_dx data width px row (dx + 1)
                 (r + data ! i, g + data ! (i + 1), b + data ! (i + 2), cnt + 1))
      else (r, g, b, cnt))"
  by pat_completeness auto
termination
  by (relation "measure (\<lambda>(data, width, px, row, dx, acc). PIXEL_SIZE - dx)") auto

function sum_dy ::
  "nat list \<Rightarrow> nat \<Rightarrow> nat \<Rightarrow> nat \<Rightarrow> nat \<Rightarrow> nat \<Rightarrow> nat \<times> nat \<times> nat \<times> nat \<Rightarrow> nat \<times> nat \<times> nat \<times> nat" where
  "sum_dy data width height px py dy acc =
     (if dy < PIXEL_SIZE \<and> py + dy < height
      then sum_dy data width height px py (dy + 1) (sum_dx data width px (py + dy) 0 acc)
      else acc)"
  by pat_completeness auto
termination
  by (relation "measure (\<lambda>(data, width, height, px, py, dy, acc). PIXEL_SIZE - dy)") auto

function fill_dx ::
  "nat list \<Rightarrow> nat \<Rightarrow> nat \<Rightarrow> nat \<Rightarrow> nat \<Rightarrow> nat \<times> nat \<times> nat \<Rightarrow> nat list" where
  "fill_dx data width px row dx (r, g, b) =
     (if dx < PIXEL_SIZE \<and> px + dx < width
      then (let i = (row * width + (px + dx)) * 4
            in fill_dx (data[i := r, i + 1 := g, i + 2 := b]) width px row (dx + 1) (r, g, b))
      else data)"
  by pat_completeness auto
termination
  by (relation "measure (\<lambda>(data, width, px, row, dx, rgb). PIXEL_SIZE - dx)") auto

function fill_dy ::
  "nat list \<Rightarrow> nat \<Rightarrow> nat \<Rightarrow> nat \<Rightarrow> nat \<Rightarrow> nat \<Rightarrow> nat \<times> nat \<times> nat \<Rightarrow> nat list" where
  "fill_dy data width height px py dy rgb =
     (if dy < PIXEL_SIZE \<and> py + dy < height
      then fill_dy (fill_dx data width px (py + dy) 0 rgb) width height px py (dy + 1) rgb
      else data)"
  by pat_completeness auto
termination
  by (relation "measure (\<lambda>(data, width, height, px, py, dy, rgb). PIXEL_SIZE - dy)") auto

definition round_div :: "nat \<Rightarrow> nat \<Rightarrow> nat" where
  \<comment> \<open>\<open>Math.round(r / count)\<close>, stored in a byte array\<close>
  "round_div r cnt = nat (round (real r / real cnt))"

definition pixelate_block :: "nat list \<Rightarrow> nat \<Rightarrow> nat \<Rightarrow> nat \<Rightarrow> nat \<Rightarrow> nat list" where
  \<comment> \<open>the body of the \<open>px\<close> loop: average one block, then fill it\<close>
  "pixelate_block data width height px py =
     (case sum_dy data width height px py 0 (0, 0, 0, 0) of
        (r, g, b, cnt) \<Rightarrow>
          fill_dy data width height px py 0
            (round_div r cnt, round_div g cnt, round_div b cnt))"

function loop_px :: "nat list \<Rightarrow> nat \<Rightarrow> nat \<Rightarrow> nat \<Rightarrow> nat \<Rightarrow> nat list" where
  "loop_px data width height py px =
     (if px < width
      then loop_px (pixelate_block data width height px py) width height py (px + PIXEL_SIZE)
      else data)"
  by pat_completeness auto
termination
  by (relation "measure (\<lambda>(data, width, height, py, px). width - px)")
     (auto simp: PIXEL_SIZE_def)

function loop_py :: "nat list \<Rightarrow> nat \<Rightarrow> nat \<Rightarrow> nat \<Rightarrow> nat list" where
  "loop_py data width height py =
     (if py < height
      then loop_py (loop_px data width height py 0) width height (py + PIXEL_SIZE)
      else data)"
  by pat_completeness auto
termination
  by (relation "measure (\<lambda>(data, width, height, py). height - py)")
     (auto simp: PIXEL_SIZE_def)




text \<open>
  \<open>applyBlurToFaces\<close> is called with detected faces and manual regions in one list; it
  reads only their \<open>selected\<close> flag and their box.
\<close>

datatype region = FaceRegion face | ManualRegion manual_region















section \<open>Example inputs\<close>

definition example_detection :: "real \<Rightarrow> real list \<Rightarrow> detection" where
  "example_detection a d =
     \<lparr> det_box = \<lparr> box_x = 12, box_y = 8, box_width = 40, box_height = 52 \<rparr>,
       det_landmarks = [], det_age = a, det_gender = ''female'',
       det_genderProbability = 0.9, det_descriptor = d \<rparr>"

definition example_engine :: "unit \<Rightarrow> error + detection list" where
  "example_engine u = Inr [example_detection 17.4 [0, 0], example_detection 17.5 [1, 0]]"

definition example_face :: "string \<Rightarrow> int \<Rightarrow> real list \<Rightarrow> face" where
  "example_face ident a d =
     \<lparr> face_id = ident,
       face_box = \<lparr> box_x = 10, box_y = 10, box_width = 40, box_height = 40 \<rparr>,
       face_landmarks = [], face_age = a, face_gender = ''female'',
       face_genderProbability = 0.9, face_isChild = (a < 18), face_selected = (a < 18),
       face_descriptor = Some d, face_imageId = Some ''img-1-0'',
       face_imageName = Some ''a.jpg'', face_thumbnail = Some ''data:'' \<rparr>"

definition example_faces :: "face list" where
  \<comment> \<open>\<open>f0\<close> and \<open>f2\<close> are 0.5 apart, \<open>f1\<close> is 5 away from \<open>f0\<close>\<close>
  "example_faces =
     [example_face ''f0'' 10 [0, 0], example_face ''f1'' 30 [3, 4], example_face ''f2'' 40 [0, 0.5]]"

definition example_rect :: dom_rect where
  "example_rect = \<lparr> rect_left = 0, rect_top = 0, rect_width = 100, rect_height = 100 \<rparr>"

definition example_event :: "real \<Rightarrow> real \<Rightarrow> mouse_event" where
  "example_event cx cy = \<lparr> ev_clientX = cx, ev_clientY = cy, ev_target_is_canvas = True \<rparr>"

definition example_drag :: "string \<Rightarrow> string option \<Rightarrow> box \<Rightarrow> drag" where
  "example_drag action corner b =
     \<lparr> drag_type = ''manual'', drag_id = ''manual-1'', drag_action = action, drag_corner = corner,
       drag_offset = \<lparr> pt_x = 5, pt_y = 5 \<rparr>, drag_initialBox = b, drag_currentBox = b,
       drag_imgWidth = 100, drag_imgHeight = 100 \<rparr>"

definition example_state :: "drag option \<Rightarrow> tool_state" where
  "example_state d =
     \<lparr> st_images = [], st_selectedImageId = None, st_blurType = ''gaussian'',
       st_isProcessing = False, st_processingStatus = [], st_isDrawing = False,
       st_drawStart = None, st_currentRect = None, st_dragging = d, st_modelsLoaded = True \<rparr>"

definition wide_drag :: drag where
  "wide_drag = example_drag ''move'' None \<lparr> box_x = 0, box_y = 0, box_width = 200, box_height = 50 \<rparr>"



definition example_entry :: "string \<Rightarrow> face list \<Rightarrow> image_entry" where
  "example_entry ident faces =
     \<lparr> entry_id = ident,
       entry_file = \<lparr> file_name = ''a.jpg'', file_type = ''image/jpeg'' \<rparr>,
       entry_img = \<lparr> image_src = ''data:'', image_width = 100, image_height = 100 \<rparr>,
       entry_faces = faces, entry_manualRegions = [], entry_processed = Some ''data:old'' \<rparr>"


definition faces_state :: tool_state where
  \<comment> \<open>one image with the three example faces\<close>
  "faces_state =
     (example_state None) \<lparr> st_images := [example_entry ''img-1-0'' example_faces],
                             st_selectedImageId := Some ''img-1-0'' \<rparr>"

definition example_env :: environment where
  "example_env =
     \<lparr> env_loadImage = (\<lambda>f. Inr \<lparr> image_src = file_name f, image_width = 100, image_height = 100 \<rparr>),
       env_modelsReady = True,
       env_engine = (\<lambda>c. if image_src (dc_image c) = ''bad.jpg''
                          then Inl (EngineFailure ''detection failed'') else Inr []),
       env_now_image = (\<lambda>i. 1700),
       env_now_face = (\<lambda>i k. 1700),
       env_toDataURL = (\<lambda>c x y w h. ''data:thumb'') \<rparr>"

definition example_file :: "string \<Rightarrow> image_file" where
  "example_file name = \<lparr> file_name = name, file_type = ''image/jpeg'' \<rparr>"







declare sum_dx.simps [simp del] sum_dy.simps [simp del] fill_dx.simps [simp del]
  fill_dy.simps [simp del] loop_px.simps [simp del] loop_py.simps [simp del]

section \<open>Properties of the detection adapter\<close>

text \<open>
  Claim C10. Every face record that \<open>detectFaces\<close> returns comes from one detection of
  the engine, in order; its age is the rounded age estimate, its \<open>isChild\<close> flag is
  \<open>age < 18\<close>, and its initial \<open>selected\<close> flag equals its \<open>isChild\<close> flag: detected
  children are pre-selected, detected adults start unselected.
\<close>

theorem detectFaces_child_preselected:
  assumes "detectFaces modelsReady engine now imageElement = Inr faces"
  shows "\<exists>detections. engine imageElement = Inr detections \<and> length faces = length detections \<and>
           (\<forall>i < length faces.
              face_age (faces ! i) = round (det_age (detections ! i)) \<and>
              face_isChild (faces ! i) = (face_age (faces ! i) < 18) \<and>
              face_selected (faces ! i) = face_isChild (faces ! i))"
  using assms
  by (auto simp: detectFaces_def detection_to_face_def Let_def nth_enumerate_eq
           split: if_splits sum.splits)

theorem detectFaces_child_preselected_witness:
  "\<exists>faces. detectFaces True example_engine (\<lambda>i. 1700) () = Inr faces \<and> length faces = 2 \<and>
     face_age (faces ! 0) = 17 \<and> face_isChild (faces ! 0) \<and> face_selected (faces ! 0) \<and>
     face_age (faces ! 1) = 18 \<and> \<not> face_isChild (faces ! 1) \<and> \<not> face_selected (faces ! 1)"
proof -
  obtain faces where r: "detectFaces True example_engine (\<lambda>i. 1700) () = Inr faces"
    by (simp add: detectFaces_def example_engine_def)
  from detectFaces_child_preselected [OF r]
  obtain detections where e: "example_engine () = Inr detections"
    and l: "length faces = length detections"
    and p: "\<forall>i < length faces.
              face_age (faces ! i) = round (det_age (detections ! i)) \<and>
              face_isChild (faces ! i) = (face_age (faces ! i) < 18) \<and>
              face_selected (faces ! i) = face_isChild (faces ! i)"
    by blast
  from e have d: "detections = [example_detection 17.4 [0, 0], example_detection 17.5 [1, 0]]"
    by (simp add: example_engine_def)
  have l2: "length faces = 2" using l d by simp
  have r0: "round (17.4 :: real) = 17" and r1: "round (17.5 :: real) = 18"
    by (simp_all add: round_def)
  have "face_age (faces ! 0) = 17 \<and> face_isChild (faces ! 0) \<and> face_selected (faces ! 0)"
    using p l2 d r0 by (simp add: example_detection_def)
  moreover have "face_age (faces ! 1) = 18 \<and> \<not> face_isChild (faces ! 1) \<and> \<not> face_selected (faces ! 1)"
    using p l2 d r1 by (simp add: example_detection_def)
  ultimately show ?thesis using r l2 by blast
qed

section \<open>Properties of person clustering\<close>

lemma makePerson_faces [simp]:
  "person_faces (makePerson t n pf) = pf"
  "person_faceIds (makePerson t n pf) = map face_id pf"
  by (simp_all add: makePerson_def Let_def)

lemma makePerson_isChild:
  "person_isChild (makePerson t n pf) \<longleftrightarrow> length pf < 2 * length (filter face_isChild pf)"
  by (auto simp add: makePerson_def Let_def field_simps)

lemma js_less_sqrt: "0 < t \<Longrightarrow> js_less (Finite (sqrt s)) t \<longleftrightarrow> s < t * t"
proof -
  assume t: "0 < t"
  have "sqrt (t * t) = t" using t by simp
  then have "sqrt s < t \<longleftrightarrow> sqrt s < sqrt (t * t)" by simp
  also have "\<dots> \<longleftrightarrow> s < t * t" by (rule real_sqrt_less_iff)
  finally show ?thesis by simp
qed

text \<open>
  The inner loop, started with the ids \<open>B\<close> of earlier clusters plus those of
  \<open>personFaces\<close> as the assigned set, keeps \<open>personFaces\<close> free of duplicate ids and of
  ids of earlier clusters, and only adds faces of the list it scans.
\<close>

lemma scanOthers_inv:
  assumes "scanOthers face t others (pf, A) = (pf', A')"
    and "distinct (map face_id pf)"
    and "set (map face_id pf) \<inter> B = {}"
    and "A = B \<union> set (map face_id pf)"
  shows "distinct (map face_id pf') \<and> set (map face_id pf') \<inter> B = {} \<and>
         A' = B \<union> set (map face_id pf') \<and> set pf' \<subseteq> set pf \<union> set others \<and>
         (pf \<noteq> [] \<longrightarrow> pf' \<noteq> []) \<and> A \<subseteq> A'"
  using assms
proof (induction others arbitrary: pf A)
  case Nil
  then show ?case by auto
next
  case (Cons a others)
  show ?case
  proof (cases "face_id a \<in> A")
    case True
    with Cons.prems have "scanOthers face t others (pf, A) = (pf', A')" by simp
    from Cons.IH [OF this Cons.prems(2,3,4)] show ?thesis by auto
  next
    case False
    show ?thesis
    proof (cases "js_less (faceDistance (face_descriptor face) (face_descriptor a)) t")
      case True
      with False Cons.prems
      have s: "scanOthers face t others (pf @ [a], insert (face_id a) A) = (pf', A')" by simp
      have d1: "distinct (map face_id (pf @ [a]))" using False Cons.prems by auto
      have d2: "set (map face_id (pf @ [a])) \<inter> B = {}" using False Cons.prems by auto
      have d3: "insert (face_id a) A = B \<union> set (map face_id (pf @ [a]))"
        using Cons.prems by auto
      from Cons.IH [OF s d1 d2 d3] show ?thesis by auto
    next
      case far: False
      with False Cons.prems have "scanOthers face t others (pf, A) = (pf', A')" by simp
      from Cons.IH [OF this Cons.prems(2,3,4)] show ?thesis by auto
    qed
  qed
qed

text \<open>
  The outer loop: the assigned set is the set of member ids of the clusters built so
  far, no id is a member twice, and every face of the remaining list ends up a member.
\<close>

lemma clusterLoop_inv:
  assumes "set rest \<subseteq> set faces"
    and "A = set (allIds persons)"
    and "distinct (allIds persons)"
    and "\<forall>p\<in>set persons. \<exists>t n pf. p = makePerson t n pf \<and> pf \<noteq> [] \<and> set pf \<subseteq> set faces"
  shows "distinct (allIds (clusterLoop now faces th rest (persons, A))) \<and>
         A \<union> set (map face_id rest) \<subseteq> set (allIds (clusterLoop now faces th rest (persons, A))) \<and>
         (\<forall>p\<in>set (clusterLoop now faces th rest (persons, A)).
            \<exists>t n pf. p = makePerson t n pf \<and> pf \<noteq> [] \<and> set pf \<subseteq> set faces)"
  using assms
proof (induction rest arbitrary: persons A)
  case Nil
  then show ?case by simp
next
  case (Cons face rest)
  have 1: "set rest \<subseteq> set faces" using Cons.prems(1) by simp
  show ?case
  proof (cases "face_id face \<in> A")
    case True
    from Cons.IH [OF 1 Cons.prems(2-4)] True show ?thesis by auto
  next
    case False
    obtain pf' A' where s: "scanOthers face th faces ([face], insert (face_id face) A) = (pf', A')"
      by (cases "scanOthers face th faces ([face], insert (face_id face) A)")
    have inv: "distinct (map face_id pf') \<and> set (map face_id pf') \<inter> A = {} \<and>
               A' = A \<union> set (map face_id pf') \<and> set pf' \<subseteq> set [face] \<union> set faces \<and>
               ([face] \<noteq> [] \<longrightarrow> pf' \<noteq> []) \<and> insert (face_id face) A \<subseteq> A'"
      by (rule scanOthers_inv [OF s]) (use False in auto)
    let ?ps = "persons @ [makePerson (now (length persons)) (length persons) pf']"
    have a: "allIds ?ps = allIds persons @ map face_id pf'" by (simp add: allIds_def)
    have fin: "face \<in> set faces" using Cons.prems(1) by simp
    have 2: "A' = set (allIds ?ps)" using inv Cons.prems(2) a by auto
    have 3: "distinct (allIds ?ps)" using inv Cons.prems(2,3) a by auto
    have new: "pf' \<noteq> [] \<and> set pf' \<subseteq> set faces" using inv fin by auto
    then have "\<exists>t n pf. makePerson (now (length persons)) (length persons) pf' = makePerson t n pf \<and>
                 pf \<noteq> [] \<and> set pf \<subseteq> set faces"
      by blast
    with Cons.prems(4)
    have 4: "\<forall>p\<in>set ?ps. \<exists>t n pf. p = makePerson t n pf \<and> pf \<noteq> [] \<and> set pf \<subseteq> set faces"
      by simp
    have step: "clusterLoop now faces th (face # rest) (persons, A) =
                clusterLoop now faces th rest (?ps, A')"
      using False s by simp
    have "insert (face_id face) A \<subseteq> A'" using inv by blast
    with Cons.IH [OF 1 2 3 4] show ?thesis unfolding step by auto
  qed
qed

lemma cluster_inv:
  "distinct (allIds (clusterFacesByPerson now faces th)) \<and>
   set (allIds (clusterFacesByPerson now faces th)) = set (map face_id faces) \<and>
   (\<forall>p\<in>set (clusterFacesByPerson now faces th).
      \<exists>t n pf. p = makePerson t n pf \<and> pf \<noteq> [] \<and> set pf \<subseteq> set faces)"
proof -
  let ?R = "clusterLoop now faces th faces ([], {})"
  have inv: "distinct (allIds ?R) \<and> {} \<union> set (map face_id faces) \<subseteq> set (allIds ?R) \<and>
        (\<forall>p\<in>set ?R. \<exists>t n pf. p = makePerson t n pf \<and> pf \<noteq> [] \<and> set pf \<subseteq> set faces)"
    by (rule clusterLoop_inv) (simp_all add: allIds_def)
  then have "set (allIds ?R) \<subseteq> set (map face_id faces)"
    by (fastforce simp: allIds_def)
  with inv show ?thesis
    by (cases faces) (auto simp: clusterFacesByPerson_def allIds_def)
qed

lemma distinct_concat_nth:
  "distinct (concat xss) \<Longrightarrow> j < k \<Longrightarrow> k < length xss \<Longrightarrow> set (xss ! j) \<inter> set (xss ! k) = {}"
proof (induction xss arbitrary: j k)
  case Nil
  then show ?case by simp
next
  case (Cons xs xss)
  from Cons.prems(2) obtain k' where k: "k = Suc k'" by (cases k) auto
  show ?case
  proof (cases j)
    case 0
    have "xss ! k' \<in> set xss" using Cons.prems(3) k by simp
    then have "set (xss ! k') \<subseteq> set (concat xss)" by auto
    with Cons.prems(1) 0 k show ?thesis by auto
  next
    case (Suc j')
    with Cons.IH [of j' k'] Cons.prems k show ?thesis by simp
  qed
qed

text \<open>
  Claim C7. A cluster returned by \<open>clusterFacesByPerson\<close> has \<open>isChild\<close> true if and only
  if strictly more than half of its member faces (which are faces of the input, listed by
  id in \<open>faceIds\<close>) are flagged child; a cluster split exactly in half is not a child.
\<close>

theorem clusterFacesByPerson_isChild_majority:
  "\<forall>p \<in> set (clusterFacesByPerson now faces threshold).
     set (person_faces p) \<subseteq> set faces \<and>
     person_faceIds p = map face_id (person_faces p) \<and>
     (person_isChild p \<longleftrightarrow>
        length (person_faces p) < 2 * length (filter face_isChild (person_faces p))) \<and>
     (2 * length (filter face_isChild (person_faces p)) = length (person_faces p)
        \<longrightarrow> \<not> person_isChild p)"
proof
  fix p
  assume "p \<in> set (clusterFacesByPerson now faces threshold)"
  with cluster_inv [of now faces threshold]
  obtain t n pf where p: "p = makePerson t n pf" and sub: "set pf \<subseteq> set faces"
    by blast
  show "set (person_faces p) \<subseteq> set faces \<and>
     person_faceIds p = map face_id (person_faces p) \<and>
     (person_isChild p \<longleftrightarrow>
        length (person_faces p) < 2 * length (filter face_isChild (person_faces p))) \<and>
     (2 * length (filter face_isChild (person_faces p)) = length (person_faces p)
        \<longrightarrow> \<not> person_isChild p)"
    unfolding p using sub by (simp add: makePerson_isChild)
qed

lemma js_less_faceDistance:
  "0 < t \<Longrightarrow>
   js_less (faceDistance (Some d1) (Some d2)) t \<longleftrightarrow>
     (case sum_sq_diffs d1 d2 0 of None \<Rightarrow> False | Some s \<Rightarrow> s < t * t)"
  using js_less_sqrt [of t] by (simp add: faceDistance_def split: option.split)

lemma example_clusters:
  "map person_faces (clusterFacesByPerson (\<lambda>k. 7) example_faces default_threshold) =
     [[example_face ''f0'' 10 [0, 0], example_face ''f2'' 40 [0, 0.5]],
      [example_face ''f1'' 30 [3, 4]]]"
  by (simp add: clusterFacesByPerson_def example_faces_def example_face_def
        js_less_faceDistance default_threshold_def)

theorem clusterFacesByPerson_isChild_majority_witness:
  "\<exists>p \<in> set (clusterFacesByPerson (\<lambda>k. 7) example_faces default_threshold).
     person_faceIds p = [''f0'', ''f2''] \<and>
     length (filter face_isChild (person_faces p)) = 1 \<and> length (person_faces p) = 2 \<and>
     \<not> person_isChild p"
proof -
  let ?ps = "clusterFacesByPerson (\<lambda>k. 7) example_faces default_threshold"
  from example_clusters obtain p q where ps: "?ps = [p, q]"
    and pf: "person_faces p = [example_face ''f0'' 10 [0, 0], example_face ''f2'' 40 [0, 0.5]]"
    by (auto simp: map_eq_Cons_conv)
  have mem: "p \<in> set ?ps" using ps by simp
  with clusterFacesByPerson_isChild_majority [of "\<lambda>k. 7" example_faces default_threshold]
  have ids: "person_faceIds p = map face_id (person_faces p)"
    and tie: "2 * length (filter face_isChild (person_faces p)) = length (person_faces p)
              \<longrightarrow> \<not> person_isChild p"
    by blast+
  have c: "length (filter face_isChild (person_faces p)) = 1" "length (person_faces p) = 2"
    using pf by (simp_all add: example_face_def)
  have "person_faceIds p = [''f0'', ''f2'']" using ids pf by (simp add: example_face_def)
  moreover have "\<not> person_isChild p" using tie c by simp
  ultimately show ?thesis using mem c by blast
qed

text \<open>
  Claim C9. For input faces with pairwise distinct ids, the clusters partition the
  input: every input face's id is a member of exactly one cluster, every member id is the
  id of an input face, no cluster is empty, the member ids of all clusters together are a
  rearrangement of the input ids, the cluster sizes add up to the number of input faces,
  and the empty input gives no cluster.
\<close>

theorem clusterFacesByPerson_partition:
  assumes "distinct (map face_id faces)"
  shows "(\<forall>f \<in> set faces.
            \<exists>!k. k < length (clusterFacesByPerson now faces threshold) \<and>
                 face_id f \<in> set (person_faceIds (clusterFacesByPerson now faces threshold ! k))) \<and>
         (\<forall>p \<in> set (clusterFacesByPerson now faces threshold).
            set (person_faceIds p) \<subseteq> face_id ` set faces \<and> person_faceIds p \<noteq> []) \<and>
         mset (allIds (clusterFacesByPerson now faces threshold)) = mset (map face_id faces) \<and>
         sum_list (map (\<lambda>p. length (person_faceIds p)) (clusterFacesByPerson now faces threshold))
           = length faces \<and>
         clusterFacesByPerson now [] threshold = []"
proof -
  let ?ps = "clusterFacesByPerson now faces threshold"
  note inv = cluster_inv [of now faces threshold]
  from inv have dist: "distinct (allIds ?ps)" and cover: "set (allIds ?ps) = set (map face_id faces)"
    by blast+
  have one: "\<forall>f \<in> set faces. \<exists>!k. k < length ?ps \<and> face_id f \<in> set (person_faceIds (?ps ! k))"
  proof
    fix f
    assume "f \<in> set faces"
    then have "face_id f \<in> set (allIds ?ps)" using cover by simp
    then obtain p where "p \<in> set ?ps" and fp: "face_id f \<in> set (person_faceIds p)"
      by (auto simp: allIds_def)
    then obtain k where k: "k < length ?ps" "face_id f \<in> set (person_faceIds (?ps ! k))"
      by (auto simp: in_set_conv_nth)
    have "j = k" if j: "j < length ?ps" "face_id f \<in> set (person_faceIds (?ps ! j))" for j
    proof (rule ccontr)
      assume "j \<noteq> k"
      then consider "j < k" | "k < j" by linarith
      then have "set (map person_faceIds ?ps ! j) \<inter> set (map person_faceIds ?ps ! k) = {}"
      proof cases
        case 1
        from distinct_concat_nth [of "map person_faceIds ?ps" j k] dist 1 k(1)
        show ?thesis by (simp add: allIds_def)
      next
        case 2
        from distinct_concat_nth [of "map person_faceIds ?ps" k j] dist 2 j(1)
        show ?thesis by (auto simp add: allIds_def)
      qed
      with j k show False by auto
    qed
    with k show "\<exists>!k. k < length ?ps \<and> face_id f \<in> set (person_faceIds (?ps ! k))"
      by blast
  qed
  have members: "\<forall>p \<in> set ?ps. set (person_faceIds p) \<subseteq> face_id ` set faces \<and> person_faceIds p \<noteq> []"
  proof
    fix p
    assume "p \<in> set ?ps"
    with inv obtain t n pf where "p = makePerson t n pf" "pf \<noteq> []" "set pf \<subseteq> set faces"
      by blast
    then show "set (person_faceIds p) \<subseteq> face_id ` set faces \<and> person_faceIds p \<noteq> []"
      by auto
  qed
  have perm: "mset (allIds ?ps) = mset (map face_id faces)"
    using dist cover assms by (metis set_eq_iff_mset_eq_distinct)
  have "sum_list (map (\<lambda>p. length (person_faceIds p)) ?ps) = length (allIds ?ps)"
    by (simp add: allIds_def length_concat comp_def)
  also have "\<dots> = length faces"
    using perm by (metis size_mset length_map)
  finally have total: "sum_list (map (\<lambda>p. length (person_faceIds p)) ?ps) = length faces" .
  have "clusterFacesByPerson now [] threshold = []"
    by (simp add: clusterFacesByPerson_def)
  with one members perm total show ?thesis by blast
qed

theorem clusterFacesByPerson_partition_witness:
  "distinct (map face_id example_faces) \<and>
   example_face ''f2'' 40 [0, 0.5] \<in> set example_faces \<and>
   (\<exists>!k. k < length (clusterFacesByPerson (\<lambda>k. 7) example_faces default_threshold) \<and>
         ''f2'' \<in> set (person_faceIds
                         (clusterFacesByPerson (\<lambda>k. 7) example_faces default_threshold ! k))) \<and>
   sum_list (map (\<lambda>p. length (person_faceIds p))
               (clusterFacesByPerson (\<lambda>k. 7) example_faces default_threshold)) = 3"
proof -
  have d: "distinct (map face_id example_faces)"
    by (simp add: example_faces_def example_face_def)
  have m: "example_face ''f2'' 40 [0, 0.5] \<in> set example_faces"
    by (simp add: example_faces_def)
  have i: "face_id (example_face ''f2'' 40 [0, 0.5]) = ''f2''"
    by (simp add: example_face_def)
  have l: "length example_faces = 3"
    by (simp add: example_faces_def)
  note t = clusterFacesByPerson_partition [OF d, of "\<lambda>k. 7" default_threshold]
  from t m i have "\<exists>!k. k < length (clusterFacesByPerson (\<lambda>k. 7) example_faces default_threshold) \<and>
         ''f2'' \<in> set (person_faceIds
                         (clusterFacesByPerson (\<lambda>k. 7) example_faces default_threshold ! k))"
    by metis
  moreover from t l
  have "sum_list (map (\<lambda>p. length (person_faceIds p))
               (clusterFacesByPerson (\<lambda>k. 7) example_faces default_threshold)) = 3"
    by simp
  ultimately show ?thesis using d m by blast
qed

section \<open>Properties of person selection\<close>

lemma toggleFaces_length [simp]: "length (toggleFaces ids v imgs) = length imgs"
  by (simp add: toggleFaces_def)

lemma toggleFaces_nth:
  "i < length imgs \<Longrightarrow>
   entry_faces (toggleFaces ids v imgs ! i) =
     map (\<lambda>face. if face_id face \<in> set ids then face \<lparr> face_selected := v \<rparr> else face)
         (entry_faces (imgs ! i))"
  by (simp add: toggleFaces_def)

text \<open>
  Claim C8. Toggling a person that is found in the person list sets the \<open>selected\<close> flag
  of every face whose id is in that person's \<open>faceIds\<close> to the negation of the person's
  \<open>selected\<close> value, changes nothing else of such a face, and leaves every face whose id
  is not in the list as it was; no face is added, removed or reordered.
\<close>

theorem togglePersonSelection_frame:
  assumes "find (\<lambda>p. person_id p = personId) ps = Some person"
  shows "length (st_images (togglePersonSelection ps personId st)) = length (st_images st) \<and>
    (\<forall>i < length (st_images st).
       length (entry_faces (st_images (togglePersonSelection ps personId st) ! i))
         = length (entry_faces (st_images st ! i)) \<and>
       (\<forall>j < length (entry_faces (st_images st ! i)).
          (face_id (entry_faces (st_images st ! i) ! j) \<in> set (person_faceIds person) \<longrightarrow>
             entry_faces (st_images (togglePersonSelection ps personId st) ! i) ! j
               = (entry_faces (st_images st ! i) ! j) \<lparr> face_selected := \<not> person_selected person \<rparr>) \<and>
          (face_id (entry_faces (st_images st ! i) ! j) \<notin> set (person_faceIds person) \<longrightarrow>
             entry_faces (st_images (togglePersonSelection ps personId st) ! i) ! j
               = entry_faces (st_images st ! i) ! j)))"
  using assms by (simp add: togglePersonSelection_def toggleFaces_nth)

lemma person_ids:
  "template_id ''person'' 7 0 = ''person-7-0''"
  "template_id ''person'' 7 (Suc 0) = ''person-7-1''"
  by code_simp+

lemma allFaces_example: "allFaces (st_images faces_state) = example_faces"
  by (simp add: allFaces_def faces_state_def example_entry_def example_faces_def example_face_def)

lemma example_persons:
  "clusterFacesByPerson (\<lambda>k. 7) example_faces default_threshold =
     [makePerson 7 0 [example_face ''f0'' 10 [0, 0], example_face ''f2'' 40 [0, 0.5]],
      makePerson 7 (Suc 0) [example_face ''f1'' 30 [3, 4]]]"
  by (simp add: clusterFacesByPerson_def example_faces_def example_face_def
        js_less_faceDistance default_threshold_def)

lemma makePerson_id: "person_id (makePerson t n pf) = template_id ''person'' t n"
  "person_selected (makePerson t n pf) = list_ex face_selected pf"
  by (simp_all add: makePerson_def Let_def)

theorem togglePersonSelection_frame_witness:
  "find (\<lambda>p. person_id p = ''person-7-1'') (persons_memo (\<lambda>k. 7) faces_state)
     = Some (makePerson 7 (Suc 0) [example_face ''f1'' 30 [3, 4]]) \<and>
   \<not> person_selected (makePerson 7 (Suc 0) [example_face ''f1'' 30 [3, 4]]) \<and>
   person_faceIds (makePerson 7 (Suc 0) [example_face ''f1'' 30 [3, 4]]) = [''f1''] \<and>
   map face_id (entry_faces (st_images faces_state ! 0)) = [''f0'', ''f1'', ''f2''] \<and>
   entry_faces (st_images (togglePersonSelection (persons_memo (\<lambda>k. 7) faces_state)
                  ''person-7-1'' faces_state) ! 0) ! 0
     = example_face ''f0'' 10 [0, 0] \<and>
   entry_faces (st_images (togglePersonSelection (persons_memo (\<lambda>k. 7) faces_state)
                  ''person-7-1'' faces_state) ! 0) ! 1
     = (example_face ''f1'' 30 [3, 4]) \<lparr> face_selected := True \<rparr> \<and>
   entry_faces (st_images (togglePersonSelection (persons_memo (\<lambda>k. 7) faces_state)
                  ''person-7-1'' faces_state) ! 0) ! 2
     = example_face ''f2'' 40 [0, 0.5]"
proof -
  let ?ps = "persons_memo (\<lambda>k. 7) faces_state"
  let ?p = "makePerson 7 (Suc 0) [example_face ''f1'' 30 [3, 4]]"
  let ?after = "st_images (togglePersonSelection ?ps ''person-7-1'' faces_state)"
  have f: "find (\<lambda>p. person_id p = ''person-7-1'') ?ps = Some ?p"
    by (simp add: persons_memo_def allFaces_example example_persons makePerson_id person_ids)
  have sel: "\<not> person_selected ?p" and ids: "person_faceIds ?p = [''f1'']"
    by (simp_all add: makePerson_id example_face_def)
  have before: "entry_faces (st_images faces_state ! 0) = example_faces"
    and len: "length (st_images faces_state) = 1"
    by (simp_all add: faces_state_def example_entry_def)
  have fids: "map face_id example_faces = [''f0'', ''f1'', ''f2'']"
    by (simp add: example_faces_def example_face_def)
  note t = togglePersonSelection_frame [OF f, of faces_state]
  from t len have l: "length (entry_faces (?after ! 0)) = length example_faces"
    and each: "\<forall>j < length example_faces.
          (face_id (example_faces ! j) \<in> set (person_faceIds ?p) \<longrightarrow>
             entry_faces (?after ! 0) ! j = (example_faces ! j) \<lparr> face_selected := \<not> person_selected ?p \<rparr>) \<and>
          (face_id (example_faces ! j) \<notin> set (person_faceIds ?p) \<longrightarrow>
             entry_faces (?after ! 0) ! j = example_faces ! j)"
    unfolding before [symmetric] by simp_all
  have e0: "entry_faces (?after ! 0) ! 0 = example_face ''f0'' 10 [0, 0]"
    using each [rule_format, of 0] ids by (simp add: example_faces_def example_face_def)
  have e1: "entry_faces (?after ! 0) ! 1 = (example_face ''f1'' 30 [3, 4]) \<lparr> face_selected := True \<rparr>"
    using each [rule_format, of 1] ids sel by (simp add: example_faces_def example_face_def)
  have e2: "entry_faces (?after ! 0) ! 2 = example_face ''f2'' 40 [0, 0.5]"
    using each [rule_format, of 2] ids by (simp add: example_faces_def example_face_def)
  from f sel ids before fids e0 e1 e2 show ?thesis by simp
qed

section \<open>Properties of region interaction\<close>

lemma moveBox_bounds:
  assumes "box_width b \<le> W" "box_height b \<le> H"
  shows "0 \<le> box_x (moveBox coords offset W H b) \<and>
    0 \<le> box_y (moveBox coords offset W H b) \<and>
    box_x (moveBox coords offset W H b) + box_width (moveBox coords offset W H b) \<le> W \<and>
    box_y (moveBox coords offset W H b) + box_height (moveBox coords offset W H b) \<le> H"
  using assms by (auto simp add: moveBox_def Let_def)

lemma moveBox_sel:
  "box_width (moveBox coords offset W H b) = box_width b"
  "box_height (moveBox coords offset W H b) = box_height b"
  "box_x (moveBox coords offset W H b) = max 0 (min (pt_x coords - pt_x offset) (W - box_width b))"
  "box_y (moveBox coords offset W H b) = max 0 (min (pt_y coords - pt_y offset) (H - box_height b))"
  by (simp_all add: moveBox_def Let_def)

lemma handleGlobalMouseMove_move:
  assumes "st_dragging st = Some d" and "drag_action d = ''move''"
  shows "handleGlobalMouseMove e (Some rect) st =
     Inr (st \<lparr> st_dragging := Some (d \<lparr> drag_currentBox :=
       moveBox (getCanvasCoordinates e rect (drag_imgWidth d) (drag_imgHeight d)) (drag_offset d)
          (drag_imgWidth d) (drag_imgHeight d) (drag_currentBox d) \<rparr>) \<rparr>)"
  using assms by (simp add: handleGlobalMouseMove_def dragStep_def)


lemma resize_x_sel [simp]:
  "box_x (resizeEast c W b) = box_x b"
  "box_width (resizeEast c W b) = min (W - box_x b) (max minSize (pt_x c - box_x b))"
  "box_x (resizeWest c b) = max 0 (min (pt_x c) (box_x b + box_width b - minSize))"
  "box_width (resizeWest c b) = box_x b + box_width b - max 0 (min (pt_x c) (box_x b + box_width b - minSize))"
  "box_x (resizeSouth c H b) = box_x b"
  "box_width (resizeSouth c H b) = box_width b"
  "box_x (resizeNorth c b) = box_x b"
  "box_width (resizeNorth c b) = box_width b"
  by (simp_all add: resizeEast_def resizeWest_def resizeSouth_def resizeNorth_def Let_def)

lemma resize_y_sel [simp]:
  "box_y (resizeSouth c H b) = box_y b"
  "box_height (resizeSouth c H b) = min (H - box_y b) (max minSize (pt_y c - box_y b))"
  "box_y (resizeNorth c b) = max 0 (min (pt_y c) (box_y b + box_height b - minSize))"
  "box_height (resizeNorth c b) = box_y b + box_height b - max 0 (min (pt_y c) (box_y b + box_height b - minSize))"
  "box_y (resizeEast c W b) = box_y b"
  "box_height (resizeEast c W b) = box_height b"
  "box_y (resizeWest c b) = box_y b"
  "box_height (resizeWest c b) = box_height b"
  by (simp_all add: resizeEast_def resizeWest_def resizeSouth_def resizeNorth_def Let_def)




lemma resizeBox_no_horizontal:
  assumes "\<not> includes_char corner CHR ''w''" "\<not> includes_char corner CHR ''e''"
  shows "box_x (resizeBox corner coords W H b) = box_x b"
    and "box_width (resizeBox corner coords W H b) = box_width b"
  using assms by (simp_all add: resizeBox_def Let_def)



lemma resizeBox_no_vertical:
  assumes "\<not> includes_char corner CHR ''n''" "\<not> includes_char corner CHR ''s''"
  shows "box_y (resizeBox corner coords W H b) = box_y b"
    and "box_height (resizeBox corner coords W H b) = box_height b"
  using assms by (simp_all add: resizeBox_def Let_def)




text \<open>
  Claim C3, as stated, fails for a box wider or taller than the image: the lower clamp
  \<open>max 0\<close> wins and the box sticks out on the right or at the bottom. Here a box of
  width 200 is moved in an image of width 100.
\<close>

theorem move_step_counterexample:
  "drag_action wide_drag = ''move'' \<and>
   handleGlobalMouseMove (example_event 50 50) (Some example_rect) (example_state (Some wide_drag))
     = Inr (example_state (Some (wide_drag
              \<lparr> drag_currentBox := \<lparr> box_x = 0, box_y = 45, box_width = 200, box_height = 50 \<rparr> \<rparr>))) \<and>
   \<not> (box_x \<lparr> box_x = 0, box_y = 45, box_width = 200, box_height = 50 \<rparr>
        + box_width \<lparr> box_x = 0, box_y = 45, box_width = 200, box_height = 50 \<rparr>
      \<le> drag_imgWidth wide_drag)"
  by (simp add: handleGlobalMouseMove_def dragStep_def wide_drag_def example_drag_def moveBox_def
        example_state_def example_event_def example_rect_def getCanvasCoordinates_def)

text \<open>
  Claim C3, amended. For a box no wider and no taller than the image, one pointer-move
  step of a move session puts the origin at the pointer position minus the captured
  offset, clamped on each axis, and the box then lies within the image:
  \<open>0 \<le> x\<close>, \<open>0 \<le> y\<close>, \<open>x + width \<le> W\<close>, \<open>y + height \<le> H\<close>; width and height are unchanged.
\<close>

theorem move_step_within_bounds:
  fixes st :: tool_state and d :: drag and e :: mouse_event and rect :: dom_rect
  assumes "st_dragging st = Some d" and "drag_action d = ''move''"
    and "box_width (drag_currentBox d) \<le> drag_imgWidth d"
    and "box_height (drag_currentBox d) \<le> drag_imgHeight d"
  defines "coords \<equiv> getCanvasCoordinates e rect (drag_imgWidth d) (drag_imgHeight d)"
  defines "b' \<equiv> moveBox coords (drag_offset d) (drag_imgWidth d) (drag_imgHeight d) (drag_currentBox d)"
  shows "handleGlobalMouseMove e (Some rect) st = Inr (st \<lparr> st_dragging := Some (d \<lparr> drag_currentBox := b' \<rparr>) \<rparr>) \<and>
         box_x b' = max 0 (min (pt_x coords - pt_x (drag_offset d)) (drag_imgWidth d - box_width (drag_currentBox d))) \<and>
         box_y b' = max 0 (min (pt_y coords - pt_y (drag_offset d)) (drag_imgHeight d - box_height (drag_currentBox d))) \<and>
         0 \<le> box_x b' \<and> 0 \<le> box_y b' \<and>
         box_x b' + box_width b' \<le> drag_imgWidth d \<and>
         box_y b' + box_height b' \<le> drag_imgHeight d \<and>
         box_width b' = box_width (drag_currentBox d) \<and>
         box_height b' = box_height (drag_currentBox d)"
  unfolding b'_def coords_def
  using handleGlobalMouseMove_move [OF assms(1,2)] moveBox_bounds [OF assms(3,4)]
  by (simp add: moveBox_sel)

theorem move_step_within_bounds_witness:
  "handleGlobalMouseMove (example_event 95 3) (Some example_rect)
     (example_state (Some (example_drag ''move'' None \<lparr> box_x = 10, box_y = 10, box_width = 40, box_height = 30 \<rparr>)))
   = Inr (example_state (Some ((example_drag ''move'' None \<lparr> box_x = 10, box_y = 10, box_width = 40, box_height = 30 \<rparr>)
        \<lparr> drag_currentBox := \<lparr> box_x = 60, box_y = 0, box_width = 40, box_height = 30 \<rparr> \<rparr>)))"
  using move_step_within_bounds [of "example_state (Some (example_drag ''move'' None \<lparr> box_x = 10, box_y = 10, box_width = 40, box_height = 30 \<rparr>))"
      "example_drag ''move'' None \<lparr> box_x = 10, box_y = 10, box_width = 40, box_height = 30 \<rparr>" "example_event 95 3" example_rect]
  by (simp add: example_state_def example_drag_def example_event_def example_rect_def getCanvasCoordinates_def moveBox_def)






lemma candidateRect_sym: "candidateRect s c = candidateRect c s"
  by (simp add: candidateRect_def min.commute abs_minus_commute)





lemma clearDrawing_sel [simp]:
  "st_images (clearDrawing st) = st_images st"
  "st_isDrawing (clearDrawing st) = False"
  "st_currentRect (clearDrawing st) = None"
  "st_drawStart (clearDrawing st) = None"
  by (simp_all add: clearDrawing_def)





section \<open>Properties of file selection\<close>

lemma processFile_cases:
  "(succeeds env file \<longrightarrow> (\<exists>entry. processFile env i file = Inr entry \<and> entry_file entry = file \<and>
        entry_manualRegions entry = [] \<and> entry_processed entry = None)) \<and>
   (\<not> succeeds env file \<longrightarrow> (\<exists>err. processFile env i file = Inl err))"
  by (auto simp: succeeds_def processFile_def detectFaces_def Let_def split: sum.splits prod.splits)

lemma processFiles_result:
  "\<exists>new lines. processFiles env i files (acc, console) = (acc @ new, console @ lines) \<and>
     map entry_file new = filter (succeeds env) files \<and>
     (\<forall>img \<in> set new. entry_manualRegions img = [] \<and> entry_processed img = None) \<and>
     lines = map (\<lambda>f. ''Failed to process '' @ file_name f) (filter (\<lambda>f. \<not> succeeds env f) files)"
proof (induction files arbitrary: i acc console)
  case Nil
  then show ?case by simp
next
  case (Cons fl files)
  show ?case
  proof (cases "succeeds env fl")
    case True
    with processFile_cases [of env fl i] obtain entry where e: "processFile env i fl = Inr entry"
      "entry_file entry = fl" "entry_manualRegions entry = []" "entry_processed entry = None"
      by blast
    from Cons.IH [of "i + 1" "acc @ [entry]" console]
    obtain new lines where r: "processFiles env (i + 1) files (acc @ [entry], console) = ((acc @ [entry]) @ new, console @ lines)"
     "map entry_file new = filter (succeeds env) files"
     "\<forall>img \<in> set new. entry_manualRegions img = [] \<and> entry_processed img = None"
     "lines = map (\<lambda>f. ''Failed to process '' @ file_name f) (filter (\<lambda>f. \<not> succeeds env f) files)"
      by blast
    show ?thesis
      apply (rule exI [of _ "entry # new"], rule exI [of _ lines])
      using e r True by simp
  next
    case False
    with processFile_cases [of env fl i] obtain err where e: "processFile env i fl = Inl err"
      by blast
    let ?l = "''Failed to process '' @ file_name fl"
    from Cons.IH [of "i + 1" acc "console @ [?l]"]
    obtain new lines where r: "processFiles env (i + 1) files (acc, console @ [?l]) = (acc @ new, (console @ [?l]) @ lines)"
     "map entry_file new = filter (succeeds env) files"
     "\<forall>img \<in> set new. entry_manualRegions img = [] \<and> entry_processed img = None"
     "lines = map (\<lambda>f. ''Failed to process '' @ file_name f) (filter (\<lambda>f. \<not> succeeds env f) files)"
      by blast
    show ?thesis
      apply (rule exI [of _ new], rule exI [of _ "?l # lines"])
      using e r False by simp
  qed
qed

lemma example_succeeds:
  "\<not> succeeds example_env (example_file ''bad.jpg'')"
  "succeeds example_env (example_file ''good.jpg'')"
  by (simp_all add: succeeds_def example_env_def example_file_def resizeForDetection_def
        MAX_DETECTION_SIZE_def imageToCanvas_def)

text \<open>
  Claim C1, as stated, fails: the entry is pushed inside the \<open>try\<close> block, after
  detection, so a file whose detection throws gets no entry. Of two files, the first
  failing in detection, only the second has an entry after the batch.
\<close>

theorem handleFilesSelected_counterexample:
  "\<not> succeeds example_env (example_file ''bad.jpg'') \<and>
   map entry_file (st_images (fst (handleFilesSelected example_env
          [example_file ''bad.jpg'', example_file ''good.jpg''] (example_state None))))
     = [example_file ''good.jpg''] \<and>
   length (st_images (fst (handleFilesSelected example_env
          [example_file ''bad.jpg'', example_file ''good.jpg''] (example_state None))))
     \<noteq> length [example_file ''bad.jpg'', example_file ''good.jpg'']"
  by (simp add: handleFilesSelected_def processFile_def detectFaces_def example_env_def
        example_file_def example_state_def resizeForDetection_def MAX_DETECTION_SIZE_def
        imageToCanvas_def succeeds_def)

text \<open>
  Claim C1, amended. When the models are loaded, a failure to load a file or to detect
  faces in it is caught and logged, and the loop goes on with the remaining files; the
  failed file gets no image entry. After the batch the image list has grown by one
  entry per file that loaded and was detected successfully, in the order of submission,
  each with no manual region and no processed output; one line is logged per failed file.
\<close>

theorem handleFilesSelected_skips_failures:
  assumes "st_modelsLoaded st"
  shows "\<exists>newImages.
           st_images (fst (handleFilesSelected env files st)) = st_images st @ newImages \<and>
           map entry_file newImages = filter (succeeds env) files \<and>
           (\<forall>img \<in> set newImages. entry_manualRegions img = [] \<and> entry_processed img = None) \<and>
           snd (handleFilesSelected env files st)
             = map (\<lambda>f. ''Failed to process '' @ file_name f) (filter (\<lambda>f. \<not> succeeds env f) files)"
proof -
  from processFiles_result [of env 0 files "[]" "[]"]
  obtain new lines where r: "processFiles env 0 files ([], []) = (new, lines)"
     "map entry_file new = filter (succeeds env) files"
     "\<forall>img \<in> set new. entry_manualRegions img = [] \<and> entry_processed img = None"
     "lines = map (\<lambda>f. ''Failed to process '' @ file_name f) (filter (\<lambda>f. \<not> succeeds env f) files)"
    by auto
  show ?thesis
    apply (rule exI [of _ new])
    using assms r by (simp add: handleFilesSelected_def)
qed

theorem handleFilesSelected_skips_failures_witness:
  "st_modelsLoaded (example_state None) \<and>
   map entry_file (st_images (fst (handleFilesSelected example_env
          [example_file ''bad.jpg'', example_file ''good.jpg''] (example_state None))))
     = [example_file ''good.jpg''] \<and>
   map entry_manualRegions (st_images (fst (handleFilesSelected example_env
          [example_file ''bad.jpg'', example_file ''good.jpg''] (example_state None))))
     = [[]] \<and>
   snd (handleFilesSelected example_env
          [example_file ''bad.jpg'', example_file ''good.jpg''] (example_state None))
     = [''Failed to process bad.jpg'']"
proof -
  have m: "st_modelsLoaded (example_state None)" and i: "st_images (example_state None) = []"
    by (simp_all add: example_state_def)
  let ?r = "handleFilesSelected example_env
          [example_file ''bad.jpg'', example_file ''good.jpg''] (example_state None)"
  from handleFilesSelected_skips_failures [OF m, of example_env
      "[example_file ''bad.jpg'', example_file ''good.jpg'']"]
  obtain new where n: "st_images (fst ?r) = new"
    "map entry_file new = [example_file ''good.jpg'']"
    "\<forall>img \<in> set new. entry_manualRegions img = [] \<and> entry_processed img = None"
    "snd ?r = [''Failed to process bad.jpg'']"
    using example_succeeds i by (auto simp: example_file_def)
  from n(2) obtain e where "new = [e]" by auto
  with n m show ?thesis by simp
qed

section \<open>Properties of the render engine\<close>





lemma fill_dx_length [simp]: "length (fill_dx data width px row dx rgb) = length data"
proof (induction data width px row dx rgb rule: fill_dx.induct)
  case (1 data width px row dx r g b)
  show ?case
  proof (cases "dx < PIXEL_SIZE \<and> px + dx < width")
    case True
    with "1" [OF True refl] show ?thesis by (subst fill_dx.simps) (simp add: Let_def)
  next
    case False
    then show ?thesis by (subst fill_dx.simps) auto
  qed
qed

lemma fill_dy_length [simp]: "length (fill_dy data width height px py dy rgb) = length data"
proof (induction data width height px py dy rgb rule: fill_dy.induct)
  case (1 data width height px py dy rgb)
  show ?case
  proof (cases "dy < PIXEL_SIZE \<and> py + dy < height")
    case True
    with "1" [OF True] show ?thesis by (subst fill_dy.simps) simp
  next
    case False
    then show ?thesis by (subst fill_dy.simps) auto
  qed
qed







lemma pixelate_block_length [simp]: "length (pixelate_block data w h px py) = length data"
  by (simp add: pixelate_block_def split: prod.splits)







lemma loop_px_length [simp]: "length (loop_px data w h py px) = length data"
proof (induction data w h py px rule: loop_px.induct)
  case (1 data w h py px)
  show ?case
  proof (cases "px < w")
    case True
    with "1" [OF True] show ?thesis by (subst loop_px.simps) simp
  next
    case False
    then show ?thesis by (subst loop_px.simps) simp
  qed
qed




lemma loop_py_length [simp]: "length (loop_py data w h py) = length data"
proof (induction data w h py rule: loop_py.induct)
  case (1 data w h py)
  show ?case
  proof (cases "py < h")
    case True
    with "1" [OF True] show ?thesis by (subst loop_py.simps) simp
  next
    case False
    then show ?thesis by (subst loop_py.simps) simp
  qed
qed








lemma putImageData_size [simp]:
  "cv_width (putImageData c imageData dx dy) = cv_width c"
  "cv_height (putImageData c imageData dx dy) = cv_height c"
  "length (cv_data (putImageData c imageData dx dy)) = length (cv_data c)"
  by (simp_all add: putImageData_def)






























end
